theory Spec2Isabelle
  imports Main
begin

section \<open>The school-image backend (main.py)\<close>

subsection \<open>Values and documents\<close>

text \<open>
  The values a stored document or a response entry can hold. \<open>JNull\<close> is Python's
  \<open>None\<close>; \<open>JId\<close> is an identifier assigned by the store.
\<close>

datatype jval =
    JNull
  | JBool bool
  | JInt int
  | JStr string
  | JId nat
  | JList "jval list"
  | JObj "(string \<times> jval) list"

text \<open>
  A Python \<open>dict\<close> with string keys, as an association list in insertion order;
  a key is looked up with \<open>map_of\<close>.
\<close>

type_synonym doc = "(string \<times> jval) list"

text \<open>\<open>d.get(k, default)\<close>; \<open>d.get(k)\<close> is \<open>dict_get d k JNull\<close>.\<close>

definition dict_get :: "doc \<Rightarrow> string \<Rightarrow> jval \<Rightarrow> jval" where
  "dict_get d k dflt = (case map_of d k of None \<Rightarrow> dflt | Some v \<Rightarrow> v)"

subsection \<open>The store behind the \<open>database\<close> module\<close>

text \<open>
  Modelled from the spec: the module \<open>database\<close> (\<open>db\<close>, \<open>get_documents\<close>,
  \<open>create_document\<close>) is imported by main.py and is not part of the source. The spec
  describes it as a thin pass-through to an external document store with two operations:
  "query documents matching a filter, capped at N, in store order" and "insert one
  document, return its generated identifier"; either operation may throw, and the handle
  \<open>db\<close> may be absent.

  \<^item> \<open>db\<close> is the module-level handle, \<open>None\<close> when no store is configured (the handle is
    identified by the name of its database);
  \<^item> \<open>collections\<close> gives the documents of each collection in store order;
  \<^item> \<open>fault\<close> is \<open>Some msg\<close> when the store throws on access, \<open>msg\<close> being the string
    representation of the exception;
  \<^item> \<open>next_id\<close> is the next identifier the store generates.
\<close>

record database =
  db :: "string option"
  collections :: "string \<Rightarrow> doc list"
  fault :: "string option"
  next_id :: nat

text \<open>
  Modelled from the spec: a document matches a filter when it holds every key of the
  filter with the filter's value ("filtered to approved = true").
\<close>

definition matches :: "doc \<Rightarrow> doc \<Rightarrow> bool" where
  "matches flt d = list_all (\<lambda>(k, v). map_of d k = Some v) flt"

text \<open>
  Modelled from the spec: \<open>get_documents\<close> of the missing module \<open>database\<close>: the
  documents of the collection that match the filter, in store order, capped at \<open>limit\<close>
  (a cap below zero returns nothing, as a cap of zero does); \<open>Inl msg\<close> when the store
  throws.
\<close>

definition get_documents :: "database \<Rightarrow> string \<Rightarrow> doc \<Rightarrow> int \<Rightarrow> string + doc list" where
  "get_documents s coll flt limit =
     (case fault s of
        Some msg \<Rightarrow> Inl msg
      | None \<Rightarrow> Inr (take (nat limit) (filter (matches flt) (collections s coll))))"

text \<open>
  Modelled from the spec: \<open>create_document\<close> of the missing module \<open>database\<close>: inserts
  the mapping, all fields included, at the end of the collection under a generated
  identifier and returns that identifier; \<open>Inl msg\<close>, with the store as it was, when the
  store throws.
\<close>

definition create_document :: "database \<Rightarrow> string \<Rightarrow> doc \<Rightarrow> (string + nat) \<times> database" where
  "create_document s coll data =
     (case fault s of
        Some msg \<Rightarrow> (Inl msg, s)
      | None \<Rightarrow>
          (Inr (next_id s),
           s\<lparr>collections := (collections s)(coll := collections s coll @ [(''_id'', JId (next_id s)) # data]),
             next_id := Suc (next_id s)\<rparr>))"

subsection \<open>The creation payload\<close>

text \<open>
  \<open>class SchoolImageIn(BaseModel)\<close>: \<open>url\<close> is a validated absolute URL, held here as
  its string.
\<close>

record SchoolImageIn =
  url :: string
  title :: "string option"
  tags :: "string list option"
  approved :: bool

text \<open>
  Building the payload from a request body: an argument is \<open>None\<close> when the field is
  omitted and \<open>Some v\<close> when it is given as \<open>v\<close>. The defaults are those of the class:
  \<open>title = None\<close>, \<open>tags = []\<close>, \<open>approved = True\<close>.
\<close>

definition SchoolImageIn_init ::
  "string \<Rightarrow> string option option \<Rightarrow> string list option option \<Rightarrow> bool option \<Rightarrow> SchoolImageIn" where
  "SchoolImageIn_init u t g a =
     \<lparr>url = u,
      title = (case t of None \<Rightarrow> None | Some v \<Rightarrow> v),
      tags = (case g of None \<Rightarrow> Some [] | Some v \<Rightarrow> v),
      approved = (case a of None \<Rightarrow> True | Some v \<Rightarrow> v)\<rparr>"

text \<open>\<open>payload.model_dump()\<close>: the payload as a mapping, every field included.\<close>

definition model_dump :: "SchoolImageIn \<Rightarrow> doc" where
  "model_dump p =
     [(''url'', JStr (url p)),
      (''title'', (case title p of None \<Rightarrow> JNull | Some t \<Rightarrow> JStr t)),
      (''tags'', (case tags p of None \<Rightarrow> JNull | Some ts \<Rightarrow> JList (map JStr ts))),
      (''approved'', JBool (approved p))]"

subsection \<open>Responses\<close>

text \<open>\<open>HTTPException(status_code, detail)\<close>.\<close>

datatype http_error = HTTPException int string

text \<open>The body \<open>{"images": images}\<close> of the listing and \<open>{"id": new_id}\<close> of the creation.\<close>

record listing =
  images :: "doc list"

record created =
  new_id :: nat

subsection \<open>GET /api/school-images\<close>

text \<open>The entry appended for one document (lines 48 to 52).\<close>

definition image_entry :: "doc \<Rightarrow> doc" where
  "image_entry d =
     [(''url'', dict_get d ''url'' JNull),
      (''title'', dict_get d ''title'' JNull),
      (''tags'', dict_get d ''tags'' (JList []))]"

text \<open>The loop \<open>for d in docs: images.append({...})\<close>, from the list built so far.\<close>

fun append_images :: "doc list \<Rightarrow> doc list \<Rightarrow> doc list" where
  "append_images imgs [] = imgs"
| "append_images imgs (d # docs) = append_images (imgs @ [image_entry d]) docs"

definition placeholders :: "doc list" where
  "placeholders =
     [[(''url'', JStr ''https://images.unsplash.com/photo-1460518451285-97b6aa326961?q=80&w=1600&auto=format&fit=crop''),
       (''title'', JStr ''Campus lawn (placeholder)''),
       (''tags'', JList [JStr ''campus'', JStr ''placeholder''])],
      [(''url'', JStr ''https://images.unsplash.com/photo-1523580846011-d3a5bc25702b?q=80&w=1600&auto=format&fit=crop''),
       (''title'', JStr ''Courtyard (placeholder)''),
       (''tags'', JList [JStr ''courtyard'', JStr ''placeholder''])],
      [(''url'', JStr ''https://images.unsplash.com/photo-1562774053-701939374585?q=80&w=1600&auto=format&fit=crop''),
       (''title'', JStr ''Hallway (placeholder)''),
       (''tags'', JList [JStr ''hallway'', JStr ''placeholder''])]]"

text \<open>
  The body of the \<open>try\<close> up to the fallback: the list \<open>images\<close> after the query and the
  loop, or \<open>Inl msg\<close> when the query throws.
\<close>

definition queried_images :: "database \<Rightarrow> int \<Rightarrow> string + doc list" where
  "queried_images s limit =
     (if db s \<noteq> None then
        (case get_documents s ''schoolimage'' [(''approved'', JBool True)] limit of
           Inl msg \<Rightarrow> Inl msg
         | Inr docs \<Rightarrow> Inr (append_images [] docs))
      else Inr [])"

text \<open>
  \<open>school_images(limit)\<close>: an empty list is replaced by the placeholders; an exception
  becomes \<open>HTTPException(500, str(e))\<close>.
\<close>

definition school_images :: "database \<Rightarrow> int \<Rightarrow> http_error + listing" where
  "school_images s limit =
     (case queried_images s limit of
        Inl msg \<Rightarrow> Inl (HTTPException 500 msg)
      | Inr imgs \<Rightarrow> Inr \<lparr>images = (if imgs = [] then placeholders else imgs)\<rparr>)"

subsection \<open>POST /api/school-images\<close>

text \<open>
  \<open>add_school_image(payload)\<close>, with the store it leaves: without a handle it raises
  503 before anything else; an exception of the insertion becomes 500.
\<close>

definition add_school_image :: "database \<Rightarrow> SchoolImageIn \<Rightarrow> (http_error + created) \<times> database" where
  "add_school_image s payload =
     (if db s = None then (Inl (HTTPException 503 ''Database not available''), s)
      else
        (case create_document s ''schoolimage'' (model_dump payload) of
           (Inl msg, s') \<Rightarrow> (Inl (HTTPException 500 msg), s')
         | (Inr i, s') \<Rightarrow> (Inr \<lparr>new_id = i\<rparr>, s')))"

subsection \<open>Example stores\<close>

text \<open>
  A connected store holding four images: an approved one with every field, one that is not
  approved, an approved one without a title and with \<open>tags\<close> stored as null, and an
  approved one that holds none of the three listed keys.
\<close>

definition example_docs :: "doc list" where
  "example_docs =
     [[(''_id'', JId 0), (''url'', JStr ''https://example.com/a.jpg''), (''title'', JStr ''Gym''),
       (''tags'', JList [JStr ''gym'']), (''approved'', JBool True)],
      [(''_id'', JId 1), (''url'', JStr ''https://example.com/b.jpg''), (''title'', JStr ''Draft''),
       (''tags'', JList []), (''approved'', JBool False)],
      [(''_id'', JId 2), (''url'', JStr ''https://example.com/c.jpg''),
       (''tags'', JNull), (''approved'', JBool True)],
      [(''_id'', JId 3), (''approved'', JBool True)]]"

definition example_store :: database where
  "example_store =
     \<lparr>db = Some ''school'',
      collections = (\<lambda>c. if c = ''schoolimage'' then example_docs else []),
      fault = None,
      next_id = 4\<rparr>"

text \<open>The same store without a handle, without documents, and throwing on access.\<close>

definition no_store :: database where
  "no_store = example_store\<lparr>db := None\<rparr>"

definition empty_store :: database where
  "empty_store = example_store\<lparr>collections := (\<lambda>c. [])\<rparr>"

definition failing_store :: database where
  "failing_store = example_store\<lparr>fault := Some ''connection refused''\<rparr>"

section \<open>Properties\<close>

subsection \<open>Auxiliary facts\<close>

lemma append_images_map: "append_images imgs docs = imgs @ map image_entry docs"
  by (induction docs arbitrary: imgs) simp_all

lemma queried_images_connected:
  "db s \<noteq> None \<Longrightarrow>
   get_documents s ''schoolimage'' [(''approved'', JBool True)] limit = Inr docs \<Longrightarrow>
   queried_images s limit = Inr (map image_entry docs)"
  by (simp add: queried_images_def append_images_map)

lemma queried_images_throws:
  "db s \<noteq> None \<Longrightarrow>
   get_documents s ''schoolimage'' [(''approved'', JBool True)] limit = Inl msg \<Longrightarrow>
   queried_images s limit = Inl msg"
  by (simp add: queried_images_def)

lemma queried_images_absent: "db s = None \<Longrightarrow> queried_images s limit = Inr []"
  by (simp add: queried_images_def)

lemma school_images_connected:
  assumes "db s \<noteq> None"
    and "get_documents s ''schoolimage'' [(''approved'', JBool True)] limit = Inr docs"
  shows "school_images s limit =
           Inr \<lparr>images = (if docs = [] then placeholders else map image_entry docs)\<rparr>"
  using queried_images_connected [OF assms] by (simp add: school_images_def)

lemma get_documents_example:
  "get_documents example_store ''schoolimage'' [(''approved'', JBool True)] limit =
     Inr (take (nat limit) [example_docs ! 0, example_docs ! 2, example_docs ! 3])"
  by (simp add: get_documents_def example_store_def example_docs_def matches_def)


lemma get_documents_subset:
  "get_documents s coll flt limit = Inr docs \<Longrightarrow>
   set docs \<subseteq> {d \<in> set (collections s coll). matches flt d}"
  by (auto simp: get_documents_def split: option.splits dest: in_set_takeD)

lemma add_school_image_created:
  assumes "add_school_image s p = (Inr c, s')"
  shows "db s \<noteq> None" and "fault s = None" and "new_id c = next_id s"
    and "db s' = db s" and "fault s' = None"
    and "collections s' ''schoolimage'' =
           collections s ''schoolimage'' @ [(''_id'', JId (next_id s)) # model_dump p]"
  using assms
  by (auto simp: add_school_image_def create_document_def split: if_splits option.splits)

lemma get_documents_all:
  assumes "fault s = None"
    and "int (length (filter (matches flt) (collections s coll))) \<le> limit"
  shows "get_documents s coll flt limit = Inr (filter (matches flt) (collections s coll))"
  using assms by (simp add: get_documents_def)

subsection \<open>The listing\<close>




text \<open>
  C2. Without a store handle the listing returns exactly the three fixed placeholder
  entries, in their fixed order, whatever the limit.
\<close>

theorem listing_without_store:
  assumes "db s = None"
  shows "school_images s limit = Inr \<lparr>images = placeholders\<rparr> \<and> length placeholders = 3"
  using queried_images_absent [OF assms] by (simp add: school_images_def placeholders_def)

theorem listing_without_store_witness:
  "db no_store = None \<and>
   school_images no_store 0 = Inr \<lparr>images = placeholders\<rparr> \<and> length placeholders = 3"
proof -
  have h: "db no_store = None" by (simp add: no_store_def)
  from listing_without_store [OF h, of 0] h show ?thesis by simp
qed

text \<open>
  C3. With a store handle and a query that returns no document, the listing returns the
  same three placeholder entries.
\<close>

theorem listing_empty_query:
  assumes "db s \<noteq> None"
    and "get_documents s ''schoolimage'' [(''approved'', JBool True)] limit = Inr []"
  shows "school_images s limit = Inr \<lparr>images = placeholders\<rparr>"
  using school_images_connected [OF assms] by simp

theorem listing_empty_query_witness:
  "db empty_store \<noteq> None \<and>
   get_documents empty_store ''schoolimage'' [(''approved'', JBool True)] 12 = Inr [] \<and>
   school_images empty_store 12 = Inr \<lparr>images = placeholders\<rparr>"
proof -
  have h1: "db empty_store \<noteq> None" by (simp add: empty_store_def example_store_def)
  have h2: "get_documents empty_store ''schoolimage'' [(''approved'', JBool True)] 12 = Inr []"
    by (simp add: get_documents_def empty_store_def example_store_def)
  from listing_empty_query [OF h1 h2] h1 h2 show ?thesis by simp
qed

text \<open>
  C4. Whatever the store holds, a listing is either the placeholder list or the
  projection of documents of the collection that each hold \<open>approved = true\<close>: no entry
  comes from a document with \<open>approved = false\<close>.
\<close>

theorem listing_only_approved:
  assumes "school_images s limit = Inr r"
  shows "images r = placeholders \<or>
         (\<exists>ds. images r = map image_entry ds \<and>
               (\<forall>d \<in> set ds. d \<in> set (collections s ''schoolimage'') \<and>
                              map_of d ''approved'' = Some (JBool True) \<and>
                              map_of d ''approved'' \<noteq> Some (JBool False)))"
proof (cases "db s = None")
  case True
  from queried_images_absent [OF True, of limit] assms show ?thesis
    by (auto simp: school_images_def)
next
  case False
  from assms obtain docs
    where q: "get_documents s ''schoolimage'' [(''approved'', JBool True)] limit = Inr docs"
    using False
    by (cases "get_documents s ''schoolimage'' [(''approved'', JBool True)] limit")
       (simp_all add: school_images_def queried_images_def)
  have r: "images r = (if docs = [] then placeholders else map image_entry docs)"
    using school_images_connected [OF False q] assms by simp
  have "\<forall>d \<in> set docs. d \<in> set (collections s ''schoolimage'') \<and>
                        map_of d ''approved'' = Some (JBool True)"
    using get_documents_subset [OF q] by (auto simp: matches_def)
  then show ?thesis using r by (cases "docs = []") auto
qed

theorem listing_only_approved_witness:
  "school_images example_store 12 =
     Inr \<lparr>images = map image_entry [example_docs ! 0, example_docs ! 2, example_docs ! 3]\<rparr> \<and>
   map_of (example_docs ! 1) ''approved'' = Some (JBool False) \<and>
   (map image_entry [example_docs ! 0, example_docs ! 2, example_docs ! 3] = placeholders \<or>
    (\<exists>ds. map image_entry [example_docs ! 0, example_docs ! 2, example_docs ! 3] = map image_entry ds \<and>
          (\<forall>d \<in> set ds. d \<in> set (collections example_store ''schoolimage'') \<and>
                         map_of d ''approved'' = Some (JBool True) \<and>
                         map_of d ''approved'' \<noteq> Some (JBool False))))"
proof -
  have h: "school_images example_store 12 =
             Inr \<lparr>images = map image_entry [example_docs ! 0, example_docs ! 2, example_docs ! 3]\<rparr>"
  proof -
    have "db example_store \<noteq> None" by (simp add: example_store_def)
    then show ?thesis
      by (simp add: school_images_def queried_images_def get_documents_example append_images_map)
  qed
  have u: "map_of (example_docs ! 1) ''approved'' = Some (JBool False)"
    by (simp add: example_docs_def)
  from listing_only_approved [OF h] h u show ?thesis by simp
qed

text \<open>
  C7. The listing gives no error response when the store handle is absent; it gives an
  error response exactly when the handle is present and the query throws, and that
  response is a 500 whose detail is the string of the exception.
\<close>

theorem listing_error_iff:
  "(db s = None \<longrightarrow> (\<exists>r. school_images s limit = Inr r)) \<and>
   (school_images s limit = Inl e \<longleftrightarrow>
      db s \<noteq> None \<and>
      (\<exists>msg. get_documents s ''schoolimage'' [(''approved'', JBool True)] limit = Inl msg \<and>
             e = HTTPException 500 msg))"
proof (cases "db s = None")
  case True
  then show ?thesis by (simp add: school_images_def queried_images_def)
next
  case False
  then show ?thesis
    by (cases "get_documents s ''schoolimage'' [(''approved'', JBool True)] limit")
       (auto simp: school_images_def queried_images_def)
qed

theorem listing_error_iff_witness:
  "db no_store = None \<and> (\<exists>r. school_images no_store 12 = Inr r) \<and>
   db failing_store \<noteq> None \<and>
   get_documents failing_store ''schoolimage'' [(''approved'', JBool True)] 12 =
     Inl ''connection refused'' \<and>
   school_images failing_store 12 = Inl (HTTPException 500 ''connection refused'') \<and>
   (\<exists>r. school_images example_store 12 = Inr r)"
proof -
  have h1: "db no_store = None" by (simp add: no_store_def)
  have h2: "db failing_store \<noteq> None" by (simp add: failing_store_def example_store_def)
  have h3: "get_documents failing_store ''schoolimage'' [(''approved'', JBool True)] 12 =
              Inl ''connection refused''"
    by (simp add: get_documents_def failing_store_def)
  have "\<forall>e. school_images example_store 12 \<noteq> Inl e"
    using listing_error_iff [of example_store 12] by (simp add: get_documents_example)
  then have h4: "\<exists>r. school_images example_store 12 = Inr r"
    by (cases "school_images example_store 12") simp_all
  from listing_error_iff [of no_store 12] h1
  have a: "\<exists>r. school_images no_store 12 = Inr r" by blast
  from listing_error_iff [of failing_store 12 "HTTPException 500 ''connection refused''"] h2 h3
  have b: "school_images failing_store 12 = Inl (HTTPException 500 ''connection refused'')"
    by blast
  from h1 a h2 h3 b h4 show ?thesis by blast
qed

text \<open>
  C8. When the store is connected and the query returns documents, the listing holds one
  entry for each of them, in order, made of the keys \<open>url\<close>, \<open>title\<close> and \<open>tags\<close> and
  of nothing else: neither \<open>approved\<close> nor the identifier of the store is a key of an
  entry.
\<close>

theorem listing_projects_three_fields:
  assumes "db s \<noteq> None"
    and "get_documents s ''schoolimage'' [(''approved'', JBool True)] limit = Inr docs"
    and "docs \<noteq> []"
  shows "\<exists>r. school_images s limit = Inr r \<and>
             images r =
               map (\<lambda>d. [(''url'', dict_get d ''url'' JNull),
                         (''title'', dict_get d ''title'' JNull),
                         (''tags'', dict_get d ''tags'' (JList []))]) docs \<and>
             (\<forall>e \<in> set (images r).
                map fst e = [''url'', ''title'', ''tags''] \<and>
                map_of e ''approved'' = None \<and> map_of e ''_id'' = None)"
proof -
  have "school_images s limit = Inr \<lparr>images = map image_entry docs\<rparr>"
    using school_images_connected [OF assms(1,2)] assms(3) by simp
  then show ?thesis by (auto simp: image_entry_def)
qed

theorem listing_projects_three_fields_witness:
  "db example_store \<noteq> None \<and>
   get_documents example_store ''schoolimage'' [(''approved'', JBool True)] 1 =
     Inr [example_docs ! 0] \<and>
   [example_docs ! 0] \<noteq> [] \<and>
   school_images example_store 1 =
     Inr \<lparr>images = [[(''url'', JStr ''https://example.com/a.jpg''), (''title'', JStr ''Gym''),
                      (''tags'', JList [JStr ''gym''])]]\<rparr>"
proof -
  have h1: "db example_store \<noteq> None" by (simp add: example_store_def)
  have h2: "get_documents example_store ''schoolimage'' [(''approved'', JBool True)] 1 =
              Inr [example_docs ! 0]"
    by (simp add: get_documents_example)
  have h3: "[example_docs ! 0] \<noteq> []" by simp
  from listing_projects_three_fields [OF h1 h2 h3]
  have "school_images example_store 1 =
          Inr \<lparr>images = [[(''url'', JStr ''https://example.com/a.jpg''), (''title'', JStr ''Gym''),
                           (''tags'', JList [JStr ''gym''])]]\<rparr>"
    by (auto simp: example_docs_def dict_get_def)
  with h1 h2 h3 show ?thesis by blast
qed

text \<open>
  C10. The projection never fails: when the store is connected and the query returns
  documents, the listing succeeds, and its entry for a returned document holds null for
  \<open>url\<close> or \<open>title\<close> when the document lacks that key, the empty list for \<open>tags\<close> only
  when the document lacks the key \<open>tags\<close>, and the stored value of \<open>tags\<close> otherwise,
  null included.
\<close>

theorem listing_projection_total:
  assumes "db s \<noteq> None"
    and "get_documents s ''schoolimage'' [(''approved'', JBool True)] limit = Inr docs"
    and "i < length docs"
  shows "\<exists>r. school_images s limit = Inr r \<and> length (images r) = length docs \<and>
             (map_of (docs ! i) ''url'' = None \<longrightarrow> map_of (images r ! i) ''url'' = Some JNull) \<and>
             (map_of (docs ! i) ''title'' = None \<longrightarrow> map_of (images r ! i) ''title'' = Some JNull) \<and>
             (map_of (docs ! i) ''tags'' = None \<longrightarrow> map_of (images r ! i) ''tags'' = Some (JList [])) \<and>
             (\<forall>v. map_of (docs ! i) ''tags'' = Some v \<longrightarrow> map_of (images r ! i) ''tags'' = Some v) \<and>
             (map_of (docs ! i) ''tags'' = Some JNull \<longrightarrow> map_of (images r ! i) ''tags'' \<noteq> Some (JList []))"
proof -
  from assms(3) have ne: "docs \<noteq> []" by auto
  have "school_images s limit = Inr \<lparr>images = map image_entry docs\<rparr>"
    using school_images_connected [OF assms(1,2)] ne by simp
  then show ?thesis
    using assms(3) by (simp add: image_entry_def dict_get_def)
qed

theorem listing_projection_total_witness:
  "db example_store \<noteq> None \<and>
   get_documents example_store ''schoolimage'' [(''approved'', JBool True)] 12 =
     Inr [example_docs ! 0, example_docs ! 2, example_docs ! 3] \<and>
   map_of (example_docs ! 2) ''title'' = None \<and>
   map_of (example_docs ! 2) ''tags'' = Some JNull \<and>
   map_of (example_docs ! 3) ''url'' = None \<and>
   map_of (example_docs ! 3) ''tags'' = None \<and>
   (\<exists>r. school_images example_store 12 = Inr r \<and>
        map_of (images r ! 1) ''title'' = Some JNull \<and>
        map_of (images r ! 1) ''tags'' = Some JNull \<and>
        map_of (images r ! 2) ''url'' = Some JNull \<and>
        map_of (images r ! 2) ''tags'' = Some (JList []))"
proof -
  let ?docs = "[example_docs ! 0, example_docs ! 2, example_docs ! 3]"
  have h1: "db example_store \<noteq> None" by (simp add: example_store_def)
  have h2: "get_documents example_store ''schoolimage'' [(''approved'', JBool True)] 12 = Inr ?docs"
    by (simp add: get_documents_example)
  have d2: "map_of (example_docs ! 2) ''title'' = None" "map_of (example_docs ! 2) ''tags'' = Some JNull"
    by (simp_all add: example_docs_def)
  have d3: "map_of (example_docs ! 3) ''url'' = None" "map_of (example_docs ! 3) ''tags'' = None"
    by (simp_all add: example_docs_def)
  have i1: "1 < length ?docs" and i2: "2 < length ?docs" by simp_all
  from listing_projection_total [OF h1 h2 i1] listing_projection_total [OF h1 h2 i2] d2 d3
  have "\<exists>r. school_images example_store 12 = Inr r \<and>
        map_of (images r ! 1) ''title'' = Some JNull \<and>
        map_of (images r ! 1) ''tags'' = Some JNull \<and>
        map_of (images r ! 2) ''url'' = Some JNull \<and>
        map_of (images r ! 2) ''tags'' = Some (JList [])"
    by auto
  with h1 h2 d2 d3 show ?thesis by blast
qed

subsection \<open>The creation\<close>

text \<open>
  C5. A payload built with \<open>approved\<close> omitted is approved; once it is created in a
  connected store, a listing whose limit covers the approved documents of the collection
  holds an entry with the \<open>url\<close>, \<open>title\<close> and \<open>tags\<close> of the payload.
\<close>

theorem create_then_list:
  assumes "p = SchoolImageIn_init u t g None"
    and "db s \<noteq> None"
    and "add_school_image s p = (Inr c, s')"
    and "int (length (filter (matches [(''approved'', JBool True)])
                             (collections s' ''schoolimage''))) \<le> limit"
  shows "approved p \<and>
         (\<exists>r. school_images s' limit = Inr r \<and>
              [(''url'', JStr (url p)),
               (''title'', (case title p of None \<Rightarrow> JNull | Some x \<Rightarrow> JStr x)),
               (''tags'', (case tags p of None \<Rightarrow> JNull | Some ts \<Rightarrow> JList (map JStr ts)))]
                \<in> set (images r))"
proof -
  let ?new = "(''_id'', JId (next_id s)) # model_dump p"
  let ?flt = "[(''approved'', JBool True)]"
  have ap: "approved p" using assms(1) by (simp add: SchoolImageIn_init_def)
  note cr = add_school_image_created [OF assms(3)]
  have m: "matches ?flt ?new" using ap by (simp add: matches_def model_dump_def)
  have f: "filter (matches ?flt) (collections s' ''schoolimage'') =
             filter (matches ?flt) (collections s ''schoolimage'') @ [?new]"
    using cr(6) m by simp
  have q: "get_documents s' ''schoolimage'' ?flt limit =
             Inr (filter (matches ?flt) (collections s ''schoolimage'') @ [?new])"
    using get_documents_all [OF cr(5) assms(4)] f by simp
  have c': "db s' \<noteq> None" using cr(1,4) by simp
  have l: "school_images s' limit =
             Inr \<lparr>images = map image_entry
                      (filter (matches ?flt) (collections s ''schoolimage'') @ [?new])\<rparr>"
    using school_images_connected [OF c' q] by simp
  have e: "image_entry ?new =
             [(''url'', JStr (url p)),
              (''title'', (case title p of None \<Rightarrow> JNull | Some x \<Rightarrow> JStr x)),
              (''tags'', (case tags p of None \<Rightarrow> JNull | Some ts \<Rightarrow> JList (map JStr ts)))]"
    by (simp add: image_entry_def dict_get_def model_dump_def)
  show ?thesis using ap l e by simp
qed

theorem create_then_list_witness:
  "db empty_store \<noteq> None \<and>
   add_school_image empty_store
       (SchoolImageIn_init ''https://example.com/a.jpg'' (Some (Some ''Gym'')) (Some (Some [''gym''])) None) =
     (Inr \<lparr>new_id = 4\<rparr>,
      snd (add_school_image empty_store
            (SchoolImageIn_init ''https://example.com/a.jpg'' (Some (Some ''Gym'')) (Some (Some [''gym''])) None))) \<and>
   (\<exists>r. school_images
          (snd (add_school_image empty_store
            (SchoolImageIn_init ''https://example.com/a.jpg'' (Some (Some ''Gym'')) (Some (Some [''gym''])) None))) 1
          = Inr r \<and>
        [(''url'', JStr ''https://example.com/a.jpg''), (''title'', JStr ''Gym''),
         (''tags'', JList [JStr ''gym''])] \<in> set (images r))"
proof -
  let ?p = "SchoolImageIn_init ''https://example.com/a.jpg'' (Some (Some ''Gym'')) (Some (Some [''gym''])) None"
  let ?s' = "snd (add_school_image empty_store ?p)"
  have h1: "db empty_store \<noteq> None" by (simp add: empty_store_def example_store_def)
  have h2: "add_school_image empty_store ?p = (Inr \<lparr>new_id = 4\<rparr>, ?s')"
    by (simp add: add_school_image_def create_document_def empty_store_def example_store_def)
  have h3: "int (length (filter (matches [(''approved'', JBool True)])
                                (collections ?s' ''schoolimage''))) \<le> 1"
    by (simp add: add_school_image_def create_document_def empty_store_def example_store_def
                  matches_def model_dump_def SchoolImageIn_init_def)
  from create_then_list [OF refl h1 h2 h3]
  have "\<exists>r. school_images ?s' 1 = Inr r \<and>
            [(''url'', JStr ''https://example.com/a.jpg''), (''title'', JStr ''Gym''),
             (''tags'', JList [JStr ''gym''])] \<in> set (images r)"
    by (simp add: SchoolImageIn_init_def)
  with h1 h2 show ?thesis by blast
qed

text \<open>
  C6. Without a store handle the creation fails with a 503 response and leaves the store
  as it was: nothing is inserted.
\<close>

theorem create_without_store:
  assumes "db s = None"
  shows "add_school_image s payload = (Inl (HTTPException 503 ''Database not available''), s)"
  using assms by (simp add: add_school_image_def)

theorem create_without_store_witness:
  "db no_store = None \<and>
   add_school_image no_store (SchoolImageIn_init ''https://example.com/a.jpg'' None None None) =
     (Inl (HTTPException 503 ''Database not available''), no_store) \<and>
   collections no_store ''schoolimage'' = example_docs"
proof -
  have h: "db no_store = None" by (simp add: no_store_def)
  have c: "collections no_store ''schoolimage'' = example_docs"
    by (simp add: no_store_def example_store_def)
  from create_without_store [OF h] h c show ?thesis by simp
qed

text \<open>
  C9. A payload built with \<open>title\<close> omitted has no title, and the record stored for it
  by a successful creation holds null under \<open>title\<close>.
\<close>

theorem title_defaults_to_absent:
  assumes "p = SchoolImageIn_init u None g a"
    and "add_school_image s p = (Inr c, s')"
  shows "title p = None \<and>
         (\<exists>d. collections s' ''schoolimage'' = collections s ''schoolimage'' @ [d] \<and>
              map_of d ''title'' = Some JNull)"
proof -
  have t: "title p = None" using assms(1) by (simp add: SchoolImageIn_init_def)
  have "map_of ((''_id'', JId (next_id s)) # model_dump p) ''title'' = Some JNull"
    using t by (simp add: model_dump_def)
  with t add_school_image_created(6) [OF assms(2)] show ?thesis by simp
qed

theorem title_defaults_to_absent_witness:
  "add_school_image example_store
       (SchoolImageIn_init ''https://example.com/e.jpg'' None (Some (Some [''yard''])) (Some False)) =
     (Inr \<lparr>new_id = 4\<rparr>,
      snd (add_school_image example_store
            (SchoolImageIn_init ''https://example.com/e.jpg'' None (Some (Some [''yard''])) (Some False)))) \<and>
   title (SchoolImageIn_init ''https://example.com/e.jpg'' None (Some (Some [''yard''])) (Some False)) = None \<and>
   (\<exists>d. collections
           (snd (add_school_image example_store
                  (SchoolImageIn_init ''https://example.com/e.jpg'' None (Some (Some [''yard''])) (Some False))))
           ''schoolimage'' =
         collections example_store ''schoolimage'' @ [d] \<and>
        map_of d ''title'' = Some JNull)"
proof -
  let ?p = "SchoolImageIn_init ''https://example.com/e.jpg'' None (Some (Some [''yard''])) (Some False)"
  let ?s' = "snd (add_school_image example_store ?p)"
  have h: "add_school_image example_store ?p = (Inr \<lparr>new_id = 4\<rparr>, ?s')"
    by (simp add: add_school_image_def create_document_def example_store_def)
  from title_defaults_to_absent [OF refl h] h show ?thesis by blast
qed

end
